theory Spec2Isabelle
  imports Complex_Main "HOL-Library.Sublist" "HOL-Library.Word"
begin

section \<open>Strings\<close>

text \<open>
  A JavaScript string is a sequence of UTF-16 code units. \<open>!s\<close> is true exactly for the
  empty string; \<open>s.startsWith(t)\<close> (position 0) compares the first \<open>t.length\<close> code units
  of \<open>s\<close> with \<open>t\<close> and is false when \<open>t\<close> is longer than \<open>s\<close>; \<open>s.trim()\<close> removes the
  leading and trailing code units that are ECMAScript white space or line terminators.
\<close>

type_synonym code_unit = "16 word"
type_synonym js_string = "code_unit list"

definition startsWith :: "js_string \<Rightarrow> js_string \<Rightarrow> bool" where
  "startsWith s searchString =
     (length searchString \<le> length s \<and> take (length searchString) s = searchString)"

definition isWhiteSpace :: "code_unit \<Rightarrow> bool" where
  "isWhiteSpace c =
     (c = 0x0009 \<or> c = 0x000A \<or> c = 0x000B \<or> c = 0x000C \<or> c = 0x000D \<or> c = 0x0020 \<or>
      c = 0x00A0 \<or> c = 0x1680 \<or> (0x2000 \<le> c \<and> c \<le> 0x200A) \<or> c = 0x2028 \<or>
      c = 0x2029 \<or> c = 0x202F \<or> c = 0x205F \<or> c = 0x3000 \<or> c = 0xFEFF)"

definition trim :: "js_string \<Rightarrow> js_string" where
  "trim s = rev (dropWhile isWhiteSpace (rev (dropWhile isWhiteSpace s)))"

section \<open>Transcript merge\<close>

text \<open>
  \<^verbatim>\<open>
  const mergeTranscript = useCallback((current: string, incoming: string) => {
    if (!incoming) return current;
    if (incoming.startsWith(current)) return incoming;
    if (current.startsWith(incoming)) return current;
    return current + incoming;
  }, []);
  \<close>
\<close>

definition mergeTranscript :: "js_string \<Rightarrow> js_string \<Rightarrow> js_string" where
  "mergeTranscript current incoming =
     (if incoming = [] then current
      else if startsWith incoming current then incoming
      else if startsWith current incoming then current
      else current @ incoming)"

section \<open>Session state\<close>

text \<open>
  The component's state: the values held by \<open>useState\<close> (what the presentation layer
  renders) and by \<open>useRef\<close> (what the callbacks share), under the names of the source.
  Objects owned by the browser are represented by what the component can observe of
  them: a media stream by the ready state of each of its tracks, a scheduled buffer
  source by the time it was started at and the duration of its buffer, an audio context
  by its identity and sample rate, a live connection by its identity. Calls that act on
  such objects and leave no trace in a ref (\<open>session.close()\<close>, \<open>source.stop()\<close>) are
  recorded in the two logs \<open>closedSessions\<close> and \<open>stoppedSources\<close>.
  Times on the audio clock and buffer durations are JavaScript numbers, taken as reals;
  the session token, a number that is only ever incremented by one, is a natural number.
\<close>

datatype speaker = User | Model

record transcription_item =
  speaker :: speaker
  item_text :: js_string
  timestamp :: int

datatype track_state = Live | Ended

type_synonym media_stream = "track_state list"

record audio_context =
  ctx_id :: nat
  sampleRate :: nat

record source_node =
  startAt :: real
  buffer_duration :: real

type_synonym session = nat

record state =
  isActive :: bool
  transcription :: "transcription_item list"
  activeUserText :: js_string
  activeModelText :: js_string
  isModelSpeaking :: bool
  audioContextInRef :: "audio_context option"
  audioContextOutRef :: "audio_context option"
  sessionRef :: "session option"
  transcriptionRef :: "transcription_item list"
  sourcesRef :: "source_node list"
  nextStartTimeRef :: real
  streamRef :: "media_stream option"
  currentInputText :: js_string
  currentOutputText :: js_string
  lastCommittedInputRef :: js_string
  lastCommittedOutputRef :: js_string
  sessionTokenRef :: nat
  closedSessions :: "session list"
  stoppedSources :: "source_node list"

text \<open>The initial values given to \<open>useState\<close> and \<open>useRef\<close> when the component mounts.\<close>

definition initialState :: state where
  "initialState =
     \<lparr>isActive = False, transcription = [], activeUserText = [], activeModelText = [],
      isModelSpeaking = False, audioContextInRef = None, audioContextOutRef = None,
      sessionRef = None, transcriptionRef = [], sourcesRef = [], nextStartTimeRef = 0,
      streamRef = None, currentInputText = [], currentOutputText = [],
      lastCommittedInputRef = [], lastCommittedOutputRef = [], sessionTokenRef = 0,
      closedSessions = [], stoppedSources = []\<rparr>"

section \<open>Stopping a session\<close>

text \<open>
  \<^verbatim>\<open>
  const stopSession = useCallback(() => {
    sessionTokenRef.current += 1;
    if (sessionRef.current) {
      sessionRef.current.close();
      sessionRef.current = null;
    }
    if (streamRef.current) {
      streamRef.current.getTracks().forEach(track => track.stop());
    }
    sourcesRef.current.forEach(source => source.stop());
    sourcesRef.current.clear();
    setIsActive(false);
  }, []);
  \<close>
  \<open>track.stop()\<close> ends a track and does nothing to an ended one; \<open>streamRef\<close> keeps the
  stream.
\<close>

definition closeSession :: "state \<Rightarrow> state" where
  "closeSession st =
     (case sessionRef st of
        None \<Rightarrow> st
      | Some s \<Rightarrow> st\<lparr>closedSessions := closedSessions st @ [s], sessionRef := None\<rparr>)"

definition stopTracks :: "state \<Rightarrow> state" where
  "stopTracks st =
     (case streamRef st of
        None \<Rightarrow> st
      | Some tracks \<Rightarrow> st\<lparr>streamRef := Some (map (\<lambda>t. Ended) tracks)\<rparr>)"

definition stopSources :: "state \<Rightarrow> state" where
  "stopSources st = st\<lparr>stoppedSources := stoppedSources st @ sourcesRef st, sourcesRef := []\<rparr>"

definition stopSession :: "state \<Rightarrow> state" where
  "stopSession st =
     (stopSources (stopTracks (closeSession
        (st\<lparr>sessionTokenRef := sessionTokenRef st + 1\<rparr>))))\<lparr>isActive := False\<rparr>"

section \<open>Inbound messages\<close>

text \<open>
  A server message, as far as \<open>onmessage\<close> reads it. \<open>inputTranscription\<close> and
  \<open>outputTranscription\<close> hold the text of the transcription object when the message has
  one (a transcription without text counts as the empty text: \<open>!incoming\<close> is true of
  both). A part of the model turn either carries inline audio or does not. For an audio
  part the record holds what the handler obtains from its surroundings while it treats
  the part: the reading of \<open>outCtx.currentTime\<close>, and the duration of the buffer that
  \<open>decodeAudioData\<close> (not part of the sources at hand) resolves to, \<open>None\<close> when it throws.
\<close>

record audio_chunk =
  clockTime :: real
  decoded :: "real option"

datatype part = InlineAudio audio_chunk | OtherPart

record server_message =
  inputTranscription :: "js_string option"
  outputTranscription :: "js_string option"
  turnComplete :: bool
  modelTurnParts :: "part list option"
  interrupted :: bool

text \<open>
  An \<open>async\<close> handler either runs to its end or throws part-way, keeping what it had
  written so far.
\<close>

datatype outcome = Completed state | Rejected state

fun stateOf :: "outcome \<Rightarrow> state" where
  "stateOf (Completed st) = st"
| "stateOf (Rejected st) = st"

fun mapOutcome :: "(state \<Rightarrow> state) \<Rightarrow> outcome \<Rightarrow> outcome" where
  "mapOutcome f (Completed st) = Completed (f st)"
| "mapOutcome f (Rejected st) = Rejected (f st)"

text \<open>
  \<^verbatim>\<open>
  if (message.serverContent?.inputTranscription) {
    currentInputText.current = mergeTranscript(currentInputText.current,
      message.serverContent.inputTranscription.text);
    setActiveUserText(currentInputText.current);
  }
  \<close>
  and the same for the output transcription.
\<close>

definition handleInputTranscription :: "js_string option \<Rightarrow> state \<Rightarrow> state" where
  "handleInputTranscription t st =
     (case t of
        None \<Rightarrow> st
      | Some incoming \<Rightarrow>
          st\<lparr>currentInputText := mergeTranscript (currentInputText st) incoming,
             activeUserText := mergeTranscript (currentInputText st) incoming\<rparr>)"

definition handleOutputTranscription :: "js_string option \<Rightarrow> state \<Rightarrow> state" where
  "handleOutputTranscription t st =
     (case t of
        None \<Rightarrow> st
      | Some incoming \<Rightarrow>
          st\<lparr>currentOutputText := mergeTranscript (currentOutputText st) incoming,
             activeModelText := mergeTranscript (currentOutputText st) incoming\<rparr>)"

text \<open>
  \<^verbatim>\<open>
  if (message.serverContent?.turnComplete) {
    const userFinal = currentInputText.current.trim();
    const modelFinal = currentOutputText.current.trim();
    const isDuplicateTurn =
      userFinal === lastCommittedInputRef.current &&
      modelFinal === lastCommittedOutputRef.current;
    if (!isDuplicateTurn) {
      lastCommittedInputRef.current = userFinal;
      lastCommittedOutputRef.current = modelFinal;
    }
    const commits: TranscriptionItem[] = [];
    if (!isDuplicateTurn) {
      if (userFinal) commits.push({ speaker: 'user', text: userFinal, timestamp: Date.now() });
      if (modelFinal) commits.push({ speaker: 'model', text: modelFinal, timestamp: Date.now() });
    }
    if (commits.length > 0) {
      setTranscription(prev => [...prev, ...commits]);
      transcriptionRef.current.push(...commits);
    }
    currentInputText.current = '';
    currentOutputText.current = '';
    setActiveUserText('');
    setActiveModelText('');
    setIsModelSpeaking(false);
  }
  \<close>
  The two readings of \<open>Date.now()\<close> are the arguments \<open>t1\<close> and \<open>t2\<close>.
\<close>

definition isDuplicateTurn :: "state \<Rightarrow> bool" where
  "isDuplicateTurn st =
     (trim (currentInputText st) = lastCommittedInputRef st \<and>
      trim (currentOutputText st) = lastCommittedOutputRef st)"

definition turnCommits :: "int \<Rightarrow> int \<Rightarrow> state \<Rightarrow> transcription_item list" where
  "turnCommits t1 t2 st =
     (if isDuplicateTurn st then []
      else (if trim (currentInputText st) = [] then []
            else [\<lparr>speaker = User, item_text = trim (currentInputText st), timestamp = t1\<rparr>]) @
           (if trim (currentOutputText st) = [] then []
            else [\<lparr>speaker = Model, item_text = trim (currentOutputText st), timestamp = t2\<rparr>]))"

definition handleTurnComplete :: "int \<Rightarrow> int \<Rightarrow> state \<Rightarrow> state" where
  "handleTurnComplete t1 t2 st =
     (let commits = turnCommits t1 t2 st;
          st1 = (if isDuplicateTurn st then st
                 else st\<lparr>lastCommittedInputRef := trim (currentInputText st),
                         lastCommittedOutputRef := trim (currentOutputText st)\<rparr>);
          st2 = (if commits = [] then st1
                 else st1\<lparr>transcription := transcription st1 @ commits,
                          transcriptionRef := transcriptionRef st1 @ commits\<rparr>)
      in st2\<lparr>currentInputText := [], currentOutputText := [], activeUserText := [],
             activeModelText := [], isModelSpeaking := False\<rparr>)"

text \<open>
  \<^verbatim>\<open>
  for (const part of parts) {
    if (part.inlineData?.data) {
      setIsModelSpeaking(true);
      const outCtx = audioContextOutRef.current!;
      nextStartTimeRef.current = Math.max(nextStartTimeRef.current, outCtx.currentTime);
      const buffer = await decodeAudioData(decode(part.inlineData.data), outCtx, 24000, 1);
      const source = outCtx.createBufferSource();
      source.buffer = buffer;
      source.connect(outCtx.destination);
      source.addEventListener('ended', () => { sourcesRef.current.delete(source); });
      source.start(nextStartTimeRef.current);
      nextStartTimeRef.current += buffer.duration;
      sourcesRef.current.add(source);
    }
  }
  \<close>
  \<open>anchor\<close> is the part before the decoding, \<open>schedule\<close> the part after it, \<open>enqueue\<close>
  both for a chunk that decodes. Reading \<open>currentTime\<close> of a missing output context
  throws, as does a failed decoding; either ends the handler. The handler is taken to
  run without another message being handled while it waits for the decoding.
\<close>

definition anchor :: "real \<Rightarrow> state \<Rightarrow> state" where
  "anchor now st =
     st\<lparr>isModelSpeaking := True, nextStartTimeRef := max (nextStartTimeRef st) now\<rparr>"

definition schedule :: "real \<Rightarrow> state \<Rightarrow> state" where
  "schedule d st =
     st\<lparr>sourcesRef := sourcesRef st @ [\<lparr>startAt = nextStartTimeRef st, buffer_duration = d\<rparr>],
        nextStartTimeRef := nextStartTimeRef st + d\<rparr>"

definition enqueue :: "real \<Rightarrow> real \<Rightarrow> state \<Rightarrow> state" where
  "enqueue now d st = schedule d (anchor now st)"

definition handlePart :: "part \<Rightarrow> state \<Rightarrow> outcome" where
  "handlePart p st =
     (case p of
        OtherPart \<Rightarrow> Completed st
      | InlineAudio c \<Rightarrow>
          (case audioContextOutRef st of
             None \<Rightarrow> Rejected (st\<lparr>isModelSpeaking := True\<rparr>)
           | Some outCtx \<Rightarrow>
               (case decoded c of
                  None \<Rightarrow> Rejected (anchor (clockTime c) st)
                | Some d \<Rightarrow> Completed (enqueue (clockTime c) d st))))"

fun handleParts :: "part list \<Rightarrow> state \<Rightarrow> outcome" where
  "handleParts [] st = Completed st"
| "handleParts (p # ps) st =
     (case handlePart p st of
        Rejected st' \<Rightarrow> Rejected st'
      | Completed st' \<Rightarrow> handleParts ps st')"

text \<open>
  \<^verbatim>\<open>
  if (message.serverContent?.interrupted) {
    sourcesRef.current.forEach(s => s.stop());
    sourcesRef.current.clear();
    nextStartTimeRef.current = 0;
    currentOutputText.current = '';
    setActiveModelText('');
    setIsModelSpeaking(false);
  }
  \<close>
\<close>

definition handleInterrupted :: "state \<Rightarrow> state" where
  "handleInterrupted st =
     (stopSources st)\<lparr>nextStartTimeRef := 0, currentOutputText := [], activeModelText := [],
                      isModelSpeaking := False\<rparr>"

text \<open>The handler runs the five blocks in the order of the source.\<close>

definition onmessage :: "int \<Rightarrow> int \<Rightarrow> server_message \<Rightarrow> state \<Rightarrow> outcome" where
  "onmessage t1 t2 message st =
     (let st1 = handleInputTranscription (inputTranscription message) st;
          st2 = handleOutputTranscription (outputTranscription message) st1;
          st3 = (if turnComplete message then handleTurnComplete t1 t2 st2 else st2)
      in case (case modelTurnParts message of
                 None \<Rightarrow> Completed st3
               | Some parts \<Rightarrow> handleParts parts st3) of
           Rejected st4 \<Rightarrow> Rejected st4
         | Completed st4 \<Rightarrow>
             Completed (if interrupted message then handleInterrupted st4 else st4))"

text \<open>A sequence of chunks that decode, each with the clock reading at its arrival.\<close>

fun enqueueAll :: "(real \<times> real) list \<Rightarrow> state \<Rightarrow> state" where
  "enqueueAll [] st = st"
| "enqueueAll ((now, d) # chunks) st = enqueueAll chunks (enqueue now d st)"

section \<open>Starting a session\<close>

text \<open>
  \<^verbatim>\<open>
  const initializeAudio = async () => {
    audioContextInRef.current = new AudioContext({ sampleRate: 16000 });
    audioContextOutRef.current = new AudioContext({ sampleRate: 24000 });
    streamRef.current = await navigator.mediaDevices.getUserMedia({ audio: true });
  };

  const startSession = async () => {
    const token = sessionTokenRef.current + 1;
    sessionTokenRef.current = token;
    await initializeAudio();
    if (token !== sessionTokenRef.current) { return; }
    setIsActive(true);
    ...
    const sessionPromise = ai.live.connect({ ... });
    const session = await sessionPromise;
    if (token !== sessionTokenRef.current) { session?.close(); return; }
    sessionRef.current = session;
  };
  \<close>
  \<open>startSession\<close> waits twice, and other callbacks run while it waits, so it is three
  steps. \<open>startSession_enter\<close> runs up to the request for the microphone: it takes the
  token and creates the two audio contexts (their identities are the arguments).
  \<open>startSession_acquired\<close> resumes when the request is settled, on the state as it is
  then: a granted stream is stored, and the token decides whether the connection is
  opened. \<open>startSession_connected\<close> resumes when the connection is settled.
\<close>

definition startSession_enter :: "nat \<Rightarrow> nat \<Rightarrow> state \<Rightarrow> nat \<times> state" where
  "startSession_enter idIn idOut st =
     (sessionTokenRef st + 1,
      st\<lparr>sessionTokenRef := sessionTokenRef st + 1,
         audioContextInRef := Some \<lparr>ctx_id = idIn, sampleRate = 16000\<rparr>,
         audioContextOutRef := Some \<lparr>ctx_id = idOut, sampleRate = 24000\<rparr>\<rparr>)"

datatype acquisition = Granted media_stream | Denied

datatype start_phase = Failed state | Aborted state | Connecting state

fun phaseState :: "start_phase \<Rightarrow> state" where
  "phaseState (Failed st) = st"
| "phaseState (Aborted st) = st"
| "phaseState (Connecting st) = st"

definition startSession_acquired :: "nat \<Rightarrow> acquisition \<Rightarrow> state \<Rightarrow> start_phase" where
  "startSession_acquired token acq st =
     (case acq of
        Denied \<Rightarrow> Failed st
      | Granted stream \<Rightarrow>
          (if token \<noteq> sessionTokenRef st then Aborted (st\<lparr>streamRef := Some stream\<rparr>)
           else Connecting (st\<lparr>streamRef := Some stream, isActive := True\<rparr>)))"

definition startSession_connected :: "nat \<Rightarrow> session option \<Rightarrow> state \<Rightarrow> state" where
  "startSession_connected token s st =
     (if token \<noteq> sessionTokenRef st
      then (case s of
              None \<Rightarrow> st
            | Some c \<Rightarrow> st\<lparr>closedSessions := closedSessions st @ [c]\<rparr>)
      else st\<lparr>sessionRef := s\<rparr>)"

section \<open>Microphone capture\<close>

text \<open>
  \<^verbatim>\<open>
  const inputData = e.inputBuffer.getChannelData(0);
  const l = inputData.length;
  const int16 = new Int16Array(l);
  for (let i = 0; i < l; i++) {
    int16[i] = inputData[i] * 32768;
  }
  \<close>
  A sample is a 32-bit float, read as a number; the product with \<open>32768\<close> (a power of
  two) is exact, so a sample in \<open>[-1, 1]\<close> and its product are modelled by the reals
  they denote. Storing a finite number in an \<open>Int16Array\<close> converts it by ECMAScript's
  \<open>ToInt16\<close>: the fraction is dropped (rounding towards zero) and the integer is reduced
  modulo \<open>2^16\<close>; the element is read back as a signed 16-bit value (\<open>sint\<close>).
\<close>

definition js_truncate :: "real \<Rightarrow> int" where
  "js_truncate x = (if 0 \<le> x then \<lfloor>x\<rfloor> else \<lceil>x\<rceil>)"

definition toInt16 :: "real \<Rightarrow> 16 word" where
  "toInt16 x = word_of_int (js_truncate x)"

definition pcmSample :: "real \<Rightarrow> 16 word" where
  "pcmSample x = toInt16 (x * 32768)"

definition onaudioprocess :: "real list \<Rightarrow> 16 word list" where
  "onaudioprocess inputData = map pcmSample inputData"

section \<open>Playback schedule, as specified\<close>

text \<open>
  The schedule the specification gives for chunks of durations \<open>d1, d2, ...\<close> packed back
  to back from a first offset \<open>s\<close>: start offsets \<open>s, s + d1, s + d1 + d2, ...\<close>.
  \<open>keepsAhead nxt chunks\<close> says that playback keeps ahead of the arrivals: each chunk
  (clock reading, duration) arrives no later than the offset reserved for it, \<open>nxt\<close>
  being the offset reserved for the first chunk of the list. \<open>noOverlap\<close> says that every
  buffer of a schedule ends before any later one starts.
\<close>

fun contiguousSchedule :: "real \<Rightarrow> real list \<Rightarrow> source_node list" where
  "contiguousSchedule s [] = []"
| "contiguousSchedule s (d # ds) =
     \<lparr>startAt = s, buffer_duration = d\<rparr> # contiguousSchedule (s + d) ds"

fun keepsAhead :: "real \<Rightarrow> (real \<times> real) list \<Rightarrow> bool" where
  "keepsAhead nxt [] = True"
| "keepsAhead nxt ((now, d) # chunks) = (now \<le> nxt \<and> keepsAhead (nxt + d) chunks)"

fun noOverlap :: "source_node list \<Rightarrow> bool" where
  "noOverlap [] = True"
| "noOverlap (a # rest) =
     (list_all (\<lambda>b. startAt a + buffer_duration a \<le> startAt b) rest \<and> noOverlap rest)"

section \<open>Example inputs\<close>

text \<open>The texts \<open>Hello\<close> and \<open>Hi\<close> of the specification's scenarios, as code units.\<close>

definition hello :: js_string where
  "hello = [0x48, 0x65, 0x6C, 0x6C, 0x6F]"

definition hi :: js_string where
  "hi = [0x48, 0x69]"

text \<open>
  A session that was started from the initial state (its start took token 1), was
  granted a one-track stream, got its connection \<open>7\<close>, and was then stopped, so that the
  token is 2; and a message of that connection with a user transcript, the end of the
  turn and one audio chunk.
\<close>

definition staleState :: state where
  "staleState =
     stopSession (startSession_connected 1 (Some 7)
       (phaseState (startSession_acquired 1 (Granted [Live])
          (snd (startSession_enter 1 2 initialState)))))"

definition staleMessage :: server_message where
  "staleMessage =
     \<lparr>inputTranscription = Some hi, outputTranscription = None, turnComplete = True,
      modelTurnParts = Some [InlineAudio \<lparr>clockTime = 3, decoded = Some 0.5\<rparr>],
      interrupted = False\<rparr>"

section \<open>Properties of the transcript merge\<close>

lemma startsWith_prefix: "startsWith s t = prefix t s"
proof
  assume "startsWith s t"
  then have "s = t @ drop (length t) s"
    by (metis append_take_drop_id startsWith_def)
  then show "prefix t s"
    by (rule prefixI)
next
  assume "prefix t s"
  then obtain zs where "s = t @ zs"
    by (auto simp: prefix_def)
  then show "startsWith s t"
    by (simp add: startsWith_def)
qed

text \<open>
  C2: for all strings, the merge returns \<open>current\<close> when the delta is empty, the delta when
  the delta has \<open>current\<close> as a leading substring, \<open>current\<close> when \<open>current\<close> has the delta
  as a leading substring, and the concatenation in every other case. The four cases are
  stated independently of the order in which the code tests them.
\<close>

theorem mergeTranscript_cases:
  "(incoming = [] \<longrightarrow> mergeTranscript current incoming = current) \<and>
   (prefix current incoming \<longrightarrow> mergeTranscript current incoming = incoming) \<and>
   (prefix incoming current \<longrightarrow> mergeTranscript current incoming = current) \<and>
   (incoming \<noteq> [] \<and> \<not> prefix current incoming \<and> \<not> prefix incoming current \<longrightarrow>
      mergeTranscript current incoming = current @ incoming)"
proof (intro conjI impI)
  assume "incoming = []"
  then show "mergeTranscript current incoming = current"
    by (simp add: mergeTranscript_def)
next
  assume p: "prefix current incoming"
  show "mergeTranscript current incoming = incoming"
  proof (cases "incoming = []")
    case True
    with p have "current = []" by simp
    with True show ?thesis by (simp add: mergeTranscript_def)
  next
    case False
    with p show ?thesis by (simp add: mergeTranscript_def startsWith_prefix)
  qed
next
  assume p: "prefix incoming current"
  show "mergeTranscript current incoming = current"
  proof (cases "prefix current incoming")
    case True
    with p have "incoming = current" by (simp add: prefix_order.antisym)
    then show ?thesis by (simp add: mergeTranscript_def startsWith_prefix)
  next
    case False
    with p show ?thesis by (simp add: mergeTranscript_def startsWith_prefix)
  qed
next
  assume "incoming \<noteq> [] \<and> \<not> prefix current incoming \<and> \<not> prefix incoming current"
  then show "mergeTranscript current incoming = current @ incoming"
    by (simp add: mergeTranscript_def startsWith_prefix)
qed

theorem mergeTranscript_cases_witness:
  "mergeTranscript [0x48, 0x69] [] = [0x48, 0x69] \<and>
   mergeTranscript [0x48, 0x65, 0x6C] [0x48, 0x65, 0x6C, 0x6C, 0x6F] = [0x48, 0x65, 0x6C, 0x6C, 0x6F] \<and>
   mergeTranscript [0x48, 0x65, 0x6C, 0x6C, 0x6F] [0x48, 0x65] = [0x48, 0x65, 0x6C, 0x6C, 0x6F] \<and>
   mergeTranscript [0x48, 0x69] [0x20, 0x79, 0x6F] = [0x48, 0x69, 0x20, 0x79, 0x6F]"
  using mergeTranscript_cases [of "[]" "[0x48, 0x69]"]
    mergeTranscript_cases [of "[0x48, 0x65, 0x6C, 0x6C, 0x6F]" "[0x48, 0x65, 0x6C]"]
    mergeTranscript_cases [of "[0x48, 0x65]" "[0x48, 0x65, 0x6C, 0x6C, 0x6F]"]
    mergeTranscript_cases [of "[0x20, 0x79, 0x6F]" "[0x48, 0x69]"]
  by simp

text \<open>
  C9: the pending text is always a leading substring of the merged text, so a merge never
  shrinks or rewrites what was accumulated; merging a text with itself returns it.
\<close>

theorem mergeTranscript_extends:
  "prefix current (mergeTranscript current incoming) \<and> mergeTranscript x x = x"
  by (simp add: mergeTranscript_def startsWith_prefix)

section \<open>Committing a turn\<close>

lemma trim_Nil: "trim [] = []"
  by (simp add: trim_def)

lemma trim_examples: "trim hello = hello" "trim hi = hi" "hello \<noteq> []" "hi \<noteq> []"
  by (simp_all add: trim_def isWhiteSpace_def hello_def hi_def)

lemma onmessage_turnComplete_only:
  "onmessage t1 t2
     \<lparr>inputTranscription = None, outputTranscription = None, turnComplete = True,
      modelTurnParts = None, interrupted = False\<rparr> st =
   Completed (handleTurnComplete t1 t2 st)"
  by (simp add: onmessage_def handleInputTranscription_def handleOutputTranscription_def)

text \<open>
  C3: when a turn is completed whose trimmed user text and trimmed agent text equal the
  last committed pair, nothing is appended to the transcript (neither to the rendered
  list nor to the list handed over at the end) and the last committed pair stays as it
  is. Consequently, when a turn is completed and the next turn has pending texts that
  trim to the same pair, the second completion appends nothing: after both, the
  transcript holds what the first completion appended, once.
\<close>

theorem duplicate_turn_suppressed:
  "(trim (currentInputText st) = lastCommittedInputRef st \<and>
    trim (currentOutputText st) = lastCommittedOutputRef st \<longrightarrow>
      transcriptionRef (handleTurnComplete t1 t2 st) = transcriptionRef st \<and>
      transcription (handleTurnComplete t1 t2 st) = transcription st \<and>
      lastCommittedInputRef (handleTurnComplete t1 t2 st) = lastCommittedInputRef st \<and>
      lastCommittedOutputRef (handleTurnComplete t1 t2 st) = lastCommittedOutputRef st) \<and>
   (trim u = trim (currentInputText st) \<and> trim m = trim (currentOutputText st) \<longrightarrow>
      transcriptionRef (handleTurnComplete t3 t4
          ((handleTurnComplete t1 t2 st)\<lparr>currentInputText := u, currentOutputText := m\<rparr>)) =
        transcriptionRef st @ turnCommits t1 t2 st \<and>
      transcription (handleTurnComplete t3 t4
          ((handleTurnComplete t1 t2 st)\<lparr>currentInputText := u, currentOutputText := m\<rparr>)) =
        transcription st @ turnCommits t1 t2 st)"
  by (simp add: handleTurnComplete_def turnCommits_def isDuplicateTurn_def Let_def)

theorem duplicate_turn_suppressed_witness:
  "transcriptionRef (handleTurnComplete 30 40
      (initialState\<lparr>currentInputText := hello, currentOutputText := hi,
         lastCommittedInputRef := hello, lastCommittedOutputRef := hi\<rparr>)) = [] \<and>
   transcriptionRef (handleTurnComplete 30 40
      ((handleTurnComplete 10 20
          (initialState\<lparr>currentInputText := hello, currentOutputText := hi\<rparr>))
        \<lparr>currentInputText := hello, currentOutputText := hi\<rparr>)) =
     [\<lparr>speaker = User, item_text = hello, timestamp = 10\<rparr>,
      \<lparr>speaker = Model, item_text = hi, timestamp = 20\<rparr>]"
  using duplicate_turn_suppressed [of
      "initialState\<lparr>currentInputText := hello, currentOutputText := hi,
         lastCommittedInputRef := hello, lastCommittedOutputRef := hi\<rparr>" 30 40 hello hi 30 40]
    duplicate_turn_suppressed [of
      "initialState\<lparr>currentInputText := hello, currentOutputText := hi\<rparr>" 10 20 hello hi 30 40]
  by (simp add: trim_examples trim_Nil initialState_def turnCommits_def isDuplicateTurn_def)

text \<open>
  C10: when a turn is completed while both pending texts trim to the empty string,
  nothing is appended to the transcript and the last committed pair becomes the empty
  pair. So when the last committed pair was not empty before, a turn that follows at
  once and repeats that earlier pair is not taken for a duplicate: its segments are
  appended.
\<close>

theorem empty_turn_overwrites_lastCommitted:
  "(trim (currentInputText st) = [] \<and> trim (currentOutputText st) = [] \<longrightarrow>
      transcriptionRef (handleTurnComplete t1 t2 st) = transcriptionRef st \<and>
      transcription (handleTurnComplete t1 t2 st) = transcription st \<and>
      lastCommittedInputRef (handleTurnComplete t1 t2 st) = [] \<and>
      lastCommittedOutputRef (handleTurnComplete t1 t2 st) = []) \<and>
   (trim (currentInputText st) = [] \<and> trim (currentOutputText st) = [] \<and>
    trim u = lastCommittedInputRef st \<and> trim m = lastCommittedOutputRef st \<and>
    (lastCommittedInputRef st, lastCommittedOutputRef st) \<noteq> ([], []) \<longrightarrow>
      transcriptionRef (handleTurnComplete t3 t4
          ((handleTurnComplete t1 t2 st)\<lparr>currentInputText := u, currentOutputText := m\<rparr>)) =
        transcriptionRef st @
          (if lastCommittedInputRef st = [] then []
           else [\<lparr>speaker = User, item_text = lastCommittedInputRef st, timestamp = t3\<rparr>]) @
          (if lastCommittedOutputRef st = [] then []
           else [\<lparr>speaker = Model, item_text = lastCommittedOutputRef st, timestamp = t4\<rparr>]) \<and>
      transcriptionRef (handleTurnComplete t3 t4
          ((handleTurnComplete t1 t2 st)\<lparr>currentInputText := u, currentOutputText := m\<rparr>)) \<noteq>
        transcriptionRef st)"
  by (auto simp add: handleTurnComplete_def turnCommits_def isDuplicateTurn_def Let_def)

theorem empty_turn_overwrites_lastCommitted_witness:
  "lastCommittedInputRef (handleTurnComplete 30 40
      (initialState\<lparr>lastCommittedInputRef := hello, lastCommittedOutputRef := hi\<rparr>)) = [] \<and>
   lastCommittedOutputRef (handleTurnComplete 30 40
      (initialState\<lparr>lastCommittedInputRef := hello, lastCommittedOutputRef := hi\<rparr>)) = [] \<and>
   transcriptionRef (handleTurnComplete 50 60
      ((handleTurnComplete 30 40
          (initialState\<lparr>lastCommittedInputRef := hello, lastCommittedOutputRef := hi\<rparr>))
        \<lparr>currentInputText := hello, currentOutputText := hi\<rparr>)) =
     [\<lparr>speaker = User, item_text = hello, timestamp = 50\<rparr>,
      \<lparr>speaker = Model, item_text = hi, timestamp = 60\<rparr>]"
  using empty_turn_overwrites_lastCommitted [of
      "initialState\<lparr>lastCommittedInputRef := hello, lastCommittedOutputRef := hi\<rparr>"
      30 40 hello hi 50 60]
  by (simp add: trim_examples trim_Nil initialState_def)

section \<open>Stopping twice\<close>

lemma stopSession_stopped:
  "sessionRef (stopSession st) = None \<and> sourcesRef (stopSession st) = [] \<and>
   \<not> isActive (stopSession st) \<and>
   sessionTokenRef (stopSession st) = sessionTokenRef st + 1"
  by (simp add: stopSession_def stopSources_def stopTracks_def closeSession_def
      split: option.splits)

text \<open>
  C8: stopping a stopped session leaves the session handle, the media stream, the set of
  playing buffers and the active flag as the first stop left them, and closes no
  connection and stops no buffer again. (The token is not among them: every stop
  advances it, see \<open>stopSession_stopped\<close>.)
\<close>

theorem stopSession_idempotent:
  "sessionRef (stopSession (stopSession st)) = sessionRef (stopSession st) \<and>
   streamRef (stopSession (stopSession st)) = streamRef (stopSession st) \<and>
   sourcesRef (stopSession (stopSession st)) = sourcesRef (stopSession st) \<and>
   isActive (stopSession (stopSession st)) = isActive (stopSession st) \<and>
   closedSessions (stopSession (stopSession st)) = closedSessions (stopSession st) \<and>
   stoppedSources (stopSession (stopSession st)) = stoppedSources (stopSession st)"
  by (simp add: stopSession_def stopSources_def stopTracks_def closeSession_def
      split: option.splits)

section \<open>Playback scheduling\<close>

lemma handlePart_decoded:
  "audioContextOutRef st = Some outCtx \<Longrightarrow>
   handlePart (InlineAudio \<lparr>clockTime = now, decoded = Some d\<rparr>) st =
     Completed (enqueue now d st)"
  by (simp add: handlePart_def)

lemma enqueue_ahead:
  "now \<le> nextStartTimeRef st \<Longrightarrow>
   sourcesRef (enqueue now d st) =
     sourcesRef st @ [\<lparr>startAt = nextStartTimeRef st, buffer_duration = d\<rparr>] \<and>
   nextStartTimeRef (enqueue now d st) = nextStartTimeRef st + d"
  by (simp add: enqueue_def schedule_def anchor_def max_def)

lemma enqueueAll_ahead:
  "keepsAhead (nextStartTimeRef st) chunks \<Longrightarrow>
   sourcesRef (enqueueAll chunks st) =
     sourcesRef st @ contiguousSchedule (nextStartTimeRef st) (map snd chunks) \<and>
   nextStartTimeRef (enqueueAll chunks st) = nextStartTimeRef st + sum_list (map snd chunks)"
proof (induction chunks arbitrary: st)
  case Nil
  then show ?case by simp
next
  case (Cons c chunks)
  obtain now d where c: "c = (now, d)" by (cases c)
  from Cons.prems c have ahead: "now \<le> nextStartTimeRef st"
    and rest: "keepsAhead (nextStartTimeRef st + d) chunks" by simp_all
  from rest enqueue_ahead [OF ahead, of d]
  have "keepsAhead (nextStartTimeRef (enqueue now d st)) chunks" by simp
  from Cons.IH [OF this] enqueue_ahead [OF ahead, of d] c
  show ?case by (simp add: add.assoc)
qed

lemma contiguousSchedule_lower:
  "list_all (\<lambda>d. 0 \<le> d) ds \<Longrightarrow> s' \<le> s \<Longrightarrow>
   list_all (\<lambda>b. s' \<le> startAt b) (contiguousSchedule s ds)"
  by (induction ds arbitrary: s) auto

lemma contiguousSchedule_noOverlap:
  "list_all (\<lambda>d. 0 \<le> d) ds \<Longrightarrow> noOverlap (contiguousSchedule s ds)"
  by (induction ds arbitrary: s) (auto intro: contiguousSchedule_lower)

text \<open>
  C4: chunks of (non-negative) durations \<open>d1, ..., dN\<close> are enqueued with no flush in
  between, from a scheduler whose next start offset is zero, the first when the output
  clock reads \<open>t0\<close>, and each later one no later than the offset reserved for it. Then
  the buffers added to the live set are scheduled at \<open>s1 = max 0 t0\<close>, \<open>s2 = s1 + d1\<close>,
  ..., no buffer overlaps a later one, and the next start offset ends at \<open>s1\<close> plus the
  sum of the durations.
\<close>

theorem playback_contiguity:
  assumes "nextStartTimeRef st = 0"
    and "keepsAhead (max 0 t0 + d1) rest"
    and "0 \<le> d1" and "list_all (\<lambda>c. 0 \<le> snd c) rest"
  shows "drop (length (sourcesRef st)) (sourcesRef (enqueueAll ((t0, d1) # rest) st)) =
           contiguousSchedule (max 0 t0) (d1 # map snd rest) \<and>
         noOverlap (drop (length (sourcesRef st))
           (sourcesRef (enqueueAll ((t0, d1) # rest) st))) \<and>
         nextStartTimeRef (enqueueAll ((t0, d1) # rest) st) =
           max 0 t0 + sum_list (d1 # map snd rest)"
proof -
  let ?st1 = "enqueue t0 d1 st"
  have first: "sourcesRef ?st1 = sourcesRef st @ [\<lparr>startAt = max 0 t0, buffer_duration = d1\<rparr>]"
    and nxt: "nextStartTimeRef ?st1 = max 0 t0 + d1"
    using assms(1) by (simp_all add: enqueue_def schedule_def anchor_def)
  from assms(2) nxt have "keepsAhead (nextStartTimeRef ?st1) rest" by simp
  from enqueueAll_ahead [OF this] first nxt
  have "sourcesRef (enqueueAll ((t0, d1) # rest) st) =
          sourcesRef st @ contiguousSchedule (max 0 t0) (d1 # map snd rest)"
    and "nextStartTimeRef (enqueueAll ((t0, d1) # rest) st) =
           max 0 t0 + sum_list (d1 # map snd rest)"
    by (simp_all add: add.assoc)
  moreover have "list_all (\<lambda>d. 0 \<le> d) (d1 # map snd rest)"
    using assms(3,4) by (simp add: list_all_iff)
  then have "noOverlap (contiguousSchedule (max 0 t0) (d1 # map snd rest))"
    by (rule contiguousSchedule_noOverlap)
  ultimately show ?thesis by simp
qed

theorem playback_contiguity_witness:
  "sourcesRef (enqueueAll [(2.0, 0.5), (2.1, 0.3)] initialState) =
     [\<lparr>startAt = 2.0, buffer_duration = 0.5\<rparr>, \<lparr>startAt = 2.5, buffer_duration = 0.3\<rparr>] \<and>
   nextStartTimeRef (enqueueAll [(2.0, 0.5), (2.1, 0.3)] initialState) = 2.8"
  using playback_contiguity [of initialState "2.0" "0.5" "[(2.1, 0.3)]"]
  by (simp add: initialState_def)

lemma onmessage_interrupted_only:
  "onmessage t1 t2
     \<lparr>inputTranscription = None, outputTranscription = None, turnComplete = False,
      modelTurnParts = None, interrupted = True\<rparr> st =
   Completed (handleInterrupted st)"
  by (simp add: onmessage_def handleInputTranscription_def handleOutputTranscription_def)

text \<open>
  C6: after the interruption handler the live set is empty and the next start offset is
  zero; the chunk enqueued next, when the output clock reads \<open>now\<close> (a clock reading is
  never negative), is scheduled at \<open>now\<close>, whatever the offset was before the flush.
\<close>

theorem flush_resets_schedule:
  "sourcesRef (handleInterrupted st) = [] \<and>
   nextStartTimeRef (handleInterrupted st) = 0 \<and>
   (0 \<le> now \<longrightarrow>
      sourcesRef (enqueue now d (handleInterrupted st)) =
        [\<lparr>startAt = now, buffer_duration = d\<rparr>] \<and>
      nextStartTimeRef (enqueue now d (handleInterrupted st)) = now + d)"
  by (simp add: handleInterrupted_def stopSources_def enqueue_def schedule_def anchor_def)

theorem flush_resets_schedule_witness:
  "sourcesRef (enqueue 7 0.5
      (handleInterrupted (enqueueAll [(2.0, 0.5), (2.1, 0.3)] initialState))) =
     [\<lparr>startAt = 7, buffer_duration = 0.5\<rparr>]"
  using flush_resets_schedule [of "enqueueAll [(2.0, 0.5), (2.1, 0.3)] initialState" 7 "0.5"]
  by simp

section \<open>Inbound messages and the session token\<close>

lemma stateOf_mapOutcome: "stateOf (mapOutcome f out) = f (stateOf out)"
  by (cases out) simp_all

lemma handleInputTranscription_token:
  "handleInputTranscription t (st\<lparr>sessionTokenRef := e\<rparr>) =
     (handleInputTranscription t st)\<lparr>sessionTokenRef := e\<rparr>"
  by (simp add: handleInputTranscription_def split: option.splits)

lemma handleOutputTranscription_token:
  "handleOutputTranscription t (st\<lparr>sessionTokenRef := e\<rparr>) =
     (handleOutputTranscription t st)\<lparr>sessionTokenRef := e\<rparr>"
  by (simp add: handleOutputTranscription_def split: option.splits)

lemma handleTurnComplete_token:
  "handleTurnComplete t1 t2 (st\<lparr>sessionTokenRef := e\<rparr>) =
     (handleTurnComplete t1 t2 st)\<lparr>sessionTokenRef := e\<rparr>"
  by (simp add: handleTurnComplete_def turnCommits_def isDuplicateTurn_def Let_def)

lemma handlePart_token:
  "handlePart p (st\<lparr>sessionTokenRef := e\<rparr>) =
     mapOutcome (\<lambda>s. s\<lparr>sessionTokenRef := e\<rparr>) (handlePart p st)"
  by (simp add: handlePart_def enqueue_def schedule_def anchor_def
      split: part.splits option.splits)

lemma handleParts_token:
  "handleParts ps (st\<lparr>sessionTokenRef := e\<rparr>) =
     mapOutcome (\<lambda>s. s\<lparr>sessionTokenRef := e\<rparr>) (handleParts ps st)"
proof (induction ps arbitrary: st)
  case Nil
  then show ?case by simp
next
  case (Cons p ps)
  show ?case
  proof (cases "handlePart p st")
    case (Completed st')
    with Cons.IH [of st'] show ?thesis by (simp add: handlePart_token)
  next
    case (Rejected st')
    then show ?thesis by (simp add: handlePart_token)
  qed
qed

lemma handleInterrupted_token:
  "handleInterrupted (st\<lparr>sessionTokenRef := e\<rparr>) =
     (handleInterrupted st)\<lparr>sessionTokenRef := e\<rparr>"
  by (simp add: handleInterrupted_def stopSources_def)

lemma afterParts_token:
  "(case (case ps of None \<Rightarrow> Completed (s\<lparr>sessionTokenRef := e\<rparr>)
                   | Some parts \<Rightarrow> handleParts parts (s\<lparr>sessionTokenRef := e\<rparr>)) of
      Rejected st4 \<Rightarrow> Rejected st4
    | Completed st4 \<Rightarrow> Completed (if i then handleInterrupted st4 else st4)) =
   mapOutcome (\<lambda>s. s\<lparr>sessionTokenRef := e\<rparr>)
     (case (case ps of None \<Rightarrow> Completed s | Some parts \<Rightarrow> handleParts parts s) of
        Rejected st4 \<Rightarrow> Rejected st4
      | Completed st4 \<Rightarrow> Completed (if i then handleInterrupted st4 else st4))"
proof (cases ps)
  case None
  then show ?thesis by (simp add: handleInterrupted_token)
next
  case (Some parts)
  then show ?thesis
    by (cases "handleParts parts s") (simp_all add: handleParts_token handleInterrupted_token)
qed

lemma onmessage_token:
  "onmessage t1 t2 message (st\<lparr>sessionTokenRef := e\<rparr>) =
     mapOutcome (\<lambda>s. s\<lparr>sessionTokenRef := e\<rparr>) (onmessage t1 t2 message st)"
  unfolding onmessage_def Let_def handleInputTranscription_token
    handleOutputTranscription_token handleTurnComplete_token
  by (cases "turnComplete message") (simp_all only: if_True if_False afterParts_token)

lemma staleState_eq:
  "staleState =
     \<lparr>isActive = False, transcription = [], activeUserText = [], activeModelText = [],
      isModelSpeaking = False,
      audioContextInRef = Some \<lparr>ctx_id = 1, sampleRate = 16000\<rparr>,
      audioContextOutRef = Some \<lparr>ctx_id = 2, sampleRate = 24000\<rparr>,
      sessionRef = None, transcriptionRef = [], sourcesRef = [], nextStartTimeRef = 0,
      streamRef = Some [Ended], currentInputText = [], currentOutputText = [],
      lastCommittedInputRef = [], lastCommittedOutputRef = [], sessionTokenRef = 2,
      closedSessions = [7], stoppedSources = []\<rparr>"
  by (simp add: staleState_def stopSession_def stopSources_def stopTracks_def closeSession_def
      startSession_connected_def startSession_acquired_def startSession_enter_def
      initialState_def)

lemma mergeTranscript_Nil_hi: "mergeTranscript [] hi = hi"
  by (simp add: mergeTranscript_def startsWith_def hi_def)

lemma stale_result:
  "onmessage 10 20 staleMessage staleState =
     Completed (staleState\<lparr>
       transcription := [\<lparr>speaker = User, item_text = hi, timestamp = 10\<rparr>],
       transcriptionRef := [\<lparr>speaker = User, item_text = hi, timestamp = 10\<rparr>],
       lastCommittedInputRef := hi,
       isModelSpeaking := True,
       sourcesRef := [\<lparr>startAt = 3, buffer_duration = 0.5\<rparr>],
       nextStartTimeRef := 3.5\<rparr>)"
  by (simp add: staleState_eq staleMessage_def onmessage_def handleInputTranscription_def
      handleOutputTranscription_def handleTurnComplete_def turnCommits_def isDuplicateTurn_def
      handlePart_def enqueue_def schedule_def anchor_def trim_examples trim_Nil
      mergeTranscript_Nil_hi Let_def)

text \<open>
  C1, as stated, fails. \<open>onmessage\<close> never compares a token: the connection opened by the
  start that took token 1 delivers \<open>staleMessage\<close> after a stop has advanced the token
  to 2, and the handler appends to the transcript, replaces the last committed user
  text, schedules the audio chunk and raises the speaking flag.
\<close>

theorem stale_event_changes_state:
  "fst (startSession_enter 1 2 initialState) = 1 \<and>
   sessionTokenRef staleState = 2 \<and>
   transcriptionRef staleState = [] \<and>
   transcriptionRef (stateOf (onmessage 10 20 staleMessage staleState)) =
     [\<lparr>speaker = User, item_text = hi, timestamp = 10\<rparr>] \<and>
   transcription (stateOf (onmessage 10 20 staleMessage staleState)) \<noteq>
     transcription staleState \<and>
   lastCommittedInputRef (stateOf (onmessage 10 20 staleMessage staleState)) \<noteq>
     lastCommittedInputRef staleState \<and>
   sourcesRef staleState = [] \<and>
   sourcesRef (stateOf (onmessage 10 20 staleMessage staleState)) =
     [\<lparr>startAt = 3, buffer_duration = 0.5\<rparr>] \<and>
   isModelSpeaking staleState = False \<and>
   isModelSpeaking (stateOf (onmessage 10 20 staleMessage staleState)) = True"
  by (simp only: stale_result stateOf.simps)
    (simp add: staleState_eq trim_examples startSession_enter_def initialState_def)

text \<open>
  C1, as amended: an inbound message is handled the same way whatever the current token
  is. \<open>onmessage\<close> neither reads nor writes the token: handling a message in a state
  whose token is replaced by any \<open>e\<close> gives the outcome of handling it in the original
  state, with the token replaced by \<open>e\<close>; and the token after the handler is the token
  before it.
\<close>

theorem onmessage_ignores_epoch:
  "onmessage t1 t2 message (st\<lparr>sessionTokenRef := e\<rparr>) =
     mapOutcome (\<lambda>s. s\<lparr>sessionTokenRef := e\<rparr>) (onmessage t1 t2 message st) \<and>
   sessionTokenRef (stateOf (onmessage t1 t2 message st)) = sessionTokenRef st"
proof
  show "onmessage t1 t2 message (st\<lparr>sessionTokenRef := e\<rparr>) =
     mapOutcome (\<lambda>s. s\<lparr>sessionTokenRef := e\<rparr>) (onmessage t1 t2 message st)"
    by (rule onmessage_token)
next
  let ?out = "onmessage t1 t2 message st"
  let ?keep = "\<lambda>s. s\<lparr>sessionTokenRef := sessionTokenRef st\<rparr>"
  have "onmessage t1 t2 message (?keep st) = mapOutcome ?keep ?out"
    by (rule onmessage_token)
  then have "?out = mapOutcome ?keep ?out"
    by simp
  then have "stateOf ?out = stateOf (mapOutcome ?keep ?out)"
    by (rule arg_cong)
  then have "stateOf ?out = ?keep (stateOf ?out)"
    by (simp only: stateOf_mapOutcome)
  then have "sessionTokenRef (stateOf ?out) = sessionTokenRef (?keep (stateOf ?out))"
    by (rule arg_cong)
  then show "sessionTokenRef (stateOf ?out) = sessionTokenRef st"
    by simp
qed

section \<open>A start overtaken by a stop\<close>

lemma startSession_abort_effect:
  "token \<noteq> sessionTokenRef st \<Longrightarrow>
   startSession_acquired token (Granted stream) st = Aborted (st\<lparr>streamRef := Some stream\<rparr>)"
  by (simp add: startSession_acquired_def)

text \<open>
  C5 does not hold of the code. From the initial state, a start takes token 1 and
  creates the two audio contexts; a stop runs while the microphone is being requested
  and advances the token to 2; the request is then granted a stream with one live track.
  The start aborts: no connection is opened and the active flag stays off. But the
  stream reference now holds the granted stream, its track still live, and the two
  context references hold the contexts the start created, where all three were empty
  before the start.
\<close>

theorem startSession_abort_keeps_acquired:
  "fst (startSession_enter 1 2 initialState) = 1 \<and>
   sessionTokenRef (stopSession (snd (startSession_enter 1 2 initialState))) = 2 \<and>
   startSession_acquired 1 (Granted [Live])
       (stopSession (snd (startSession_enter 1 2 initialState))) =
     Aborted ((stopSession (snd (startSession_enter 1 2 initialState)))
                \<lparr>streamRef := Some [Live]\<rparr>) \<and>
   streamRef initialState = None \<and>
   audioContextInRef initialState = None \<and>
   audioContextOutRef initialState = None \<and>
   streamRef (phaseState (startSession_acquired 1 (Granted [Live])
       (stopSession (snd (startSession_enter 1 2 initialState))))) = Some [Live] \<and>
   audioContextInRef (phaseState (startSession_acquired 1 (Granted [Live])
       (stopSession (snd (startSession_enter 1 2 initialState))))) =
     Some \<lparr>ctx_id = 1, sampleRate = 16000\<rparr> \<and>
   audioContextOutRef (phaseState (startSession_acquired 1 (Granted [Live])
       (stopSession (snd (startSession_enter 1 2 initialState))))) =
     Some \<lparr>ctx_id = 2, sampleRate = 24000\<rparr>"
  by (simp add: stopSession_def stopSources_def stopTracks_def closeSession_def
      startSession_acquired_def startSession_enter_def initialState_def)

section \<open>Microphone samples\<close>

lemma onaudioprocess_nth:
  "i < length inputData \<Longrightarrow> onaudioprocess inputData ! i = pcmSample (inputData ! i)"
  by (simp add: onaudioprocess_def)

lemma truncate_pcm_range:
  assumes "-1 \<le> x" and "x < 1"
  shows "- 32768 \<le> js_truncate (x * 32768) \<and> js_truncate (x * 32768) < 32768"
proof (cases "0 \<le> x")
  case True
  then have "0 \<le> x * 32768" by simp
  moreover from assms(2) have "x * 32768 < 32768" by simp
  ultimately have "0 \<le> \<lfloor>x * 32768\<rfloor> \<and> \<lfloor>x * 32768\<rfloor> < 32768"
    by (simp add: floor_less_iff)
  with True show ?thesis by (simp add: js_truncate_def)
next
  case False
  then have "x * 32768 \<le> 0" by simp
  moreover from assms(1) have "- 32768 \<le> x * 32768" by simp
  ultimately have "- 32768 \<le> \<lceil>x * 32768\<rceil> \<and> \<lceil>x * 32768\<rceil> \<le> 0"
    by (simp add: le_ceiling_iff ceiling_le_iff)
  with False show ?thesis by (simp add: js_truncate_def)
qed

lemma truncate_close: "\<bar>real_of_int (js_truncate y) - y\<bar> < 1"
  unfolding js_truncate_def by (simp; linarith)

text \<open>
  C7, as stated, fails. The full-scale sample \<open>1\<close> scales to \<open>32768\<close>, which no signed
  16-bit value equals: the stored value is \<open>-32768\<close>. And a sample whose product with
  \<open>32768\<close> is not an integer, such as \<open>1 / 65536\<close>, is stored with its fraction dropped.
\<close>

theorem pcmSample_full_scale_wraps:
  "sint (pcmSample 1) = - 32768 \<and> real_of_int (sint (pcmSample 1)) \<noteq> 1 * 32768 \<and>
   sint (pcmSample (1 / 65536)) = 0 \<and>
   real_of_int (sint (pcmSample (1 / 65536))) \<noteq> 1 / 65536 * 32768"
  by (simp add: pcmSample_def toInt16_def js_truncate_def)

text \<open>
  C7, as amended: for every sample \<open>x\<close> with \<open>-1 \<le> x < 1\<close>, the stored 16-bit value is
  \<open>x\<close> scaled by \<open>32768\<close> with the fraction dropped (rounded towards zero); it lies in
  the signed 16-bit range and differs from the scaled sample by less than one.
\<close>

theorem pcmSample_truncates:
  assumes "-1 \<le> x" and "x < 1"
  shows "sint (pcmSample x) = js_truncate (x * 32768) \<and>
         - 32768 \<le> sint (pcmSample x) \<and> sint (pcmSample x) \<le> 32767 \<and>
         \<bar>real_of_int (sint (pcmSample x)) - x * 32768\<bar> < 1"
proof -
  from truncate_pcm_range [OF assms]
  have r: "- (2 ^ 15) \<le> js_truncate (x * 32768)" "js_truncate (x * 32768) < 2 ^ 15" by simp_all
  have "sint (pcmSample x) = signed_take_bit 15 (js_truncate (x * 32768))"
    by (simp add: pcmSample_def toInt16_def sint_sbintrunc')
  also from r have "\<dots> = js_truncate (x * 32768)"
    by (rule signed_take_bit_int_eq_self)
  finally have eq: "sint (pcmSample x) = js_truncate (x * 32768)" .
  with truncate_pcm_range [OF assms] truncate_close [of "x * 32768"] show ?thesis by simp
qed

theorem pcmSample_truncates_witness:
  "sint (pcmSample (1 / 2)) = 16384 \<and> sint (pcmSample (- 1)) = - 32768"
  using pcmSample_truncates [of "1 / 2"] pcmSample_truncates [of "- 1"]
  by (simp add: js_truncate_def)

end
